theory Spec2Isabelle
  imports Complex_Main
begin

section \<open>Numeric conventions\<close>

text \<open>
  The kernels of \<^verbatim>\<open>magnetic_functions.c\<close> and of the BCC paracrystal model compute on C
  \<^verbatim>\<open>double\<close>s. Every \<^verbatim>\<open>double\<close> is modelled here as a \<^typ>\<open>real\<close> and every operation
  (\<^verbatim>\<open>+\<close>, \<^verbatim>\<open>*\<close>, \<^verbatim>\<open>/\<close>, \<^verbatim>\<open>sqrt\<close>, \<^verbatim>\<open>exp\<close>, \<^verbatim>\<open>tanh\<close>, \<^verbatim>\<open>sin\<close>, \<^verbatim>\<open>cos\<close>) as the exact
  operation on the reals: rounding, overflow, infinities and NaN are outside the model.
  A C division whose divisor is zero yields an infinity or a NaN, whereas HOL's \<open>x / 0\<close> is
  \<open>0\<close>; every statement below that depends on a quotient therefore carries the
  hypothesis that its divisor is not zero, or evaluates the divisor explicitly.
\<close>

subsection \<open>Helpers of the kernel header\<close>

text \<open>
  Modelled from the spec: the numeric helper \<^verbatim>\<open>square\<close> of the kernel header, which is
  not among the sources; \<^verbatim>\<open>square(x)\<close> is \<^verbatim>\<open>x*x\<close>.
\<close>

definition square :: "real \<Rightarrow> real" where
  "square x = x * x"

text \<open>
  Modelled from the spec: the numeric helper \<^verbatim>\<open>cube\<close> of the kernel header, which is
  not among the sources; \<^verbatim>\<open>cube(x)\<close> is \<^verbatim>\<open>x*x*x\<close>.
\<close>

definition cube :: "real \<Rightarrow> real" where
  "cube x = x * x * x"

text \<open>
  Modelled from the spec: the numeric helper \<^verbatim>\<open>clip(x, lo, hi)\<close>, which is not among the
  sources; it restricts \<^verbatim>\<open>x\<close> to the interval from \<^verbatim>\<open>lo\<close> to \<^verbatim>\<open>hi\<close>.
\<close>

definition clip :: "real \<Rightarrow> real \<Rightarrow> real \<Rightarrow> real" where
  "clip x low high = (if x < low then low else if x > high then high else x)"

text \<open>The C library's \<^verbatim>\<open>expm1(x)\<close> is \<open>exp x - 1\<close>.\<close>

definition expm1 :: "real \<Rightarrow> real" where
  "expm1 x = exp x - 1"

text \<open>
  Modelled from the spec: the constants \<^verbatim>\<open>M_PI\<close>, \<^verbatim>\<open>M_PI_2\<close> and \<^verbatim>\<open>M_4PI_3\<close> of the
  kernel header, which is not among the sources: \<open>\<pi>\<close>, \<open>\<pi>/2\<close> and \<open>4\<pi>/3\<close>.
\<close>

definition M_PI :: real where
  "M_PI = pi"

definition M_PI_2 :: real where
  "M_PI_2 = pi / 2"

definition M_4PI_3 :: real where
  "M_4PI_3 = 4 * pi / 3"

section \<open>Spin weights\<close>

text \<open>
  \<^verbatim>\<open>set_weights(in_spin, out_spin, weight)\<close> overwrites all eight slots of \<^verbatim>\<open>weight\<close>; the
  model returns them as a list in the order of the slots. The local \<^verbatim>\<open>norm\<close> is initialised
  from the parameter \<^verbatim>\<open>out_spin\<close> in its declaration, before the two clamping assignments.
\<close>

definition set_weights :: "real \<Rightarrow> real \<Rightarrow> real list" where
  "set_weights in_spin0 out_spin0 =
    (let norm0 = out_spin0;
         in_spin = clip (sqrt (square in_spin0)) 0 1;
         out_spin = clip (sqrt (square out_spin0)) 0 1;
         norm = (if out_spin < 0.5 then 1 - out_spin else norm0);
         w0 = (1 - in_spin) * (1 - out_spin) / norm;
         w1 = w0;
         w2 = in_spin * out_spin / norm;
         w3 = w2;
         w4 = (1 - in_spin) * out_spin / norm;
         w5 = w4;
         w6 = in_spin * (1 - out_spin) / norm;
         w7 = w6
     in [w0, w1, w2, w3, w4, w5, w6, w7])"

text \<open>The value of the local \<^verbatim>\<open>norm\<close> of \<^verbatim>\<open>set_weights\<close> when the weights are computed.\<close>

definition set_weights_norm :: "real \<Rightarrow> real" where
  "set_weights_norm out_spin0 =
    (let norm0 = out_spin0;
         out_spin = clip (sqrt (square out_spin0)) 0 1
     in if out_spin < 0.5 then 1 - out_spin else norm0)"

section \<open>Langevin function\<close>

text \<open>
  \<^verbatim>\<open>langevin(x)\<close> is \<open>coth x - 1/x\<close>, with the branch \<^verbatim>\<open>1.0/3.0*x\<close> below the threshold
  \<^verbatim>\<open>0.00001\<close>; \<^verbatim>\<open>langevinoverx(x)\<close> is \<^verbatim>\<open>langevin(x)/x\<close> with the branch \<^verbatim>\<open>1.0/3.0\<close>.
\<close>

definition langevin :: "real \<Rightarrow> real" where
  "langevin x = (if x < 0.00001 then 1 / 3 * x else 1 / tanh x - 1 / x)"

definition langevinoverx :: "real \<Rightarrow> real" where
  "langevinoverx x = (if x < 0.00001 then 1 / 3 else langevin x / x)"

section \<open>Core-shell amplitude\<close>

text \<open>
  The C conversion \<^verbatim>\<open>(int)x\<close> of a \<^verbatim>\<open>double\<close> discards the fractional part (truncation
  toward zero). A value outside the range of \<^verbatim>\<open>int\<close> is undefined behaviour in C and is not
  modelled.
\<close>

definition c_int_cast :: "real \<Rightarrow> int" where
  "c_int_cast x = (if x < 0 then \<lceil>x\<rceil> else \<lfloor>x\<rfloor>)"

text \<open>
  The arrays \<^verbatim>\<open>sld[]\<close> and \<^verbatim>\<open>thickness[]\<close> reach \<^verbatim>\<open>fq_core_shell\<close> as pointers without a
  length; the model takes each as the function from an index to the \<^verbatim>\<open>double\<close> stored
  there. The kernel \<^verbatim>\<open>sas_3j1x_x\<close> is not among the sources and is a parameter.
  The loop \<^verbatim>\<open>for (int i=0; i<n; i++)\<close> carries the locals \<^verbatim>\<open>f\<close>, \<^verbatim>\<open>r\<close> and \<^verbatim>\<open>last_sld\<close>.
\<close>

function fq_core_shell_loop ::
  "(real \<Rightarrow> real) \<Rightarrow> real \<Rightarrow> (nat \<Rightarrow> real) \<Rightarrow> (nat \<Rightarrow> real) \<Rightarrow> int \<Rightarrow> int
    \<Rightarrow> real \<times> real \<times> real \<Rightarrow> real \<times> real \<times> real" where
  "fq_core_shell_loop sas_3j1x_x q sld thickness n i (f, r, last_sld) =
    (if i < n
     then fq_core_shell_loop sas_3j1x_x q sld thickness n (i + 1)
            (f + M_4PI_3 * cube r * (sld (nat i) - last_sld) * sas_3j1x_x (q * r),
             r + thickness (nat i),
             sld (nat i))
     else (f, r, last_sld))"
  by pat_completeness auto
termination
  by (relation "measure (\<lambda>(j1, q, sld, thickness, n, i, s). nat (n - i))") auto

declare fq_core_shell_loop.simps [simp del]

definition fq_core_shell ::
  "(real \<Rightarrow> real) \<Rightarrow> real \<Rightarrow> real \<Rightarrow> real \<Rightarrow> real \<Rightarrow> real \<Rightarrow> (nat \<Rightarrow> real) \<Rightarrow> (nat \<Rightarrow> real)
    \<Rightarrow> real" where
  "fq_core_shell sas_3j1x_x q sld_core radius sld_solvent fp_n sld thickness =
    (let n = c_int_cast (fp_n + 0.5)
     in case fq_core_shell_loop sas_3j1x_x q sld thickness n 0 (0, radius, sld_core) of
          (f, r, last_sld) \<Rightarrow>
            f + M_4PI_3 * cube r * (sld_solvent - last_sld) * sas_3j1x_x (q * r))"

section \<open>Vector algebra\<close>

text \<open>
  A \<^verbatim>\<open>double[3]\<close> is a triple. A function that writes its result into a caller-supplied
  array returns the array instead; the result array is an object of its own, distinct from
  the argument arrays, as it is at each call in \<^verbatim>\<open>mag_sld\<close>.
\<close>

type_synonym vec3 = "real \<times> real \<times> real"

definition SET_VEC :: "real \<Rightarrow> real \<Rightarrow> real \<Rightarrow> vec3" where
  "SET_VEC v0 v1 v2 = (v0, v1, v2)"

fun SCALAR_VEC :: "vec3 \<Rightarrow> vec3 \<Rightarrow> real" where
  "SCALAR_VEC (a0, a1, a2) (b0, b1, b2) = a0 * b0 + a1 * b1 + a2 * b2"

fun ORTH_VEC :: "vec3 \<Rightarrow> vec3 \<Rightarrow> vec3" where
  "ORTH_VEC (a0, a1, a2) (b0, b1, b2) =
    (a0 - SCALAR_VEC (a0, a1, a2) (b0, b1, b2) / SCALAR_VEC (b0, b1, b2) (b0, b1, b2) * b0,
     a1 - SCALAR_VEC (a0, a1, a2) (b0, b1, b2) / SCALAR_VEC (b0, b1, b2) (b0, b1, b2) * b1,
     a2 - SCALAR_VEC (a0, a1, a2) (b0, b1, b2) / SCALAR_VEC (b0, b1, b2) (b0, b1, b2) * b2)"

section \<open>Magnetic scattering length densities\<close>

text \<open>
  \<^verbatim>\<open>mag_sld\<close> overwrites the eight slots of \<^verbatim>\<open>sld\<close>: 0 = dd.real, 1 = dd.imag, 2 = uu.real,
  3 = uu.imag, 4 = du.real, 5 = du.imag, 6 = ud.real, 7 = ud.imag. The model returns them as
  a list in that order.
\<close>

definition mag_sld ::
  "real \<Rightarrow> real \<Rightarrow> real \<Rightarrow> real \<Rightarrow> real \<Rightarrow> real \<Rightarrow> real \<Rightarrow> real \<Rightarrow> real \<Rightarrow> real \<Rightarrow> real list" where
  "mag_sld x y z mxreal mximag myreal myimag mzreal mzimag nuc =
    (let q = sqrt (x * x + y * y + z * z);
         vector = SET_VEC (x / q) (y / q) (z / q);
         Mvectorreal = SET_VEC mxreal myreal mzreal;
         Mvectorimag = SET_VEC mximag myimag mzimag;
         Pvector = SET_VEC 0 0 1;
         perpy = SET_VEC 0 1 0;
         perpx = SET_VEC 1 0 0;
         Mperpreal = ORTH_VEC Mvectorreal vector;
         Mperpimag = ORTH_VEC Mvectorimag vector
     in [nuc - SCALAR_VEC Pvector Mperpreal,
         SCALAR_VEC Pvector Mperpimag,
         nuc + SCALAR_VEC Pvector Mperpreal,
         - SCALAR_VEC Pvector Mperpimag,
         SCALAR_VEC perpy Mperpreal + SCALAR_VEC perpx Mperpimag,
         SCALAR_VEC perpy Mperpimag - SCALAR_VEC perpx Mperpreal,
         SCALAR_VEC perpy Mperpreal - SCALAR_VEC perpx Mperpimag,
         SCALAR_VEC perpy Mperpimag + SCALAR_VEC perpx Mperpreal])"

section \<open>BCC paracrystal\<close>

text \<open>The lattice sum \<^verbatim>\<open>_sq_bcc\<close>, in the form that is compiled (\<^verbatim>\<open>#if 1\<close>).\<close>

definition sq_bcc :: "real \<Rightarrow> real \<Rightarrow> real \<Rightarrow> real \<Rightarrow> real \<Rightarrow> real" where
  "sq_bcc qa qb qc dnn d_factor =
    (let a1 = qa - qc + qb;
         a2 = qa + qc - qb;
         a3 = - qa + qc + qb;
         half_dnn = 0.5 * dnn;
         arg = 0.5 * square (half_dnn * d_factor) * (a1 * a1 + a2 * a2 + a3 * a3);
         exp_arg = exp (- arg)
     in - cube (expm1 (- 2 * arg))
        / (((exp_arg - 2 * cos (half_dnn * a1)) * exp_arg + 1)
         * ((exp_arg - 2 * cos (half_dnn * a2)) * exp_arg + 1)
         * ((exp_arg - 2 * cos (half_dnn * a3)) * exp_arg + 1)))"

text \<open>
  The alternate form of \<^verbatim>\<open>_sq_bcc\<close> that the source keeps under \<^verbatim>\<open>#else\<close>, with \<^verbatim>\<open>sinh\<close> and
  \<^verbatim>\<open>cosh\<close>. C's \<^verbatim>\<open>*\<close> and \<^verbatim>\<open>/\<close> associate to the left.
\<close>

definition sq_bcc_alt :: "real \<Rightarrow> real \<Rightarrow> real \<Rightarrow> real \<Rightarrow> real \<Rightarrow> real" where
  "sq_bcc_alt qa qb qc dnn d_factor =
    (let a1 = qa - qc + qb;
         a2 = qa + qc - qb;
         a3 = - qa + qc + qb;
         half_dnn = 0.5 * dnn;
         arg = 0.5 * square (half_dnn * d_factor) * (a1 * a1 + a2 * a2 + a3 * a3);
         sinh_qd = sinh arg;
         cosh_qd = cosh arg
     in sinh_qd / (cosh_qd - cos (half_dnn * a1))
        * sinh_qd / (cosh_qd - cos (half_dnn * a2))
        * sinh_qd / (cosh_qd - cos (half_dnn * a3)))"

text \<open>
  The three factors of the denominator of the compiled form, and the three of the
  alternate form.
\<close>

definition sq_bcc_denoms :: "real \<Rightarrow> real \<Rightarrow> real \<Rightarrow> real \<Rightarrow> real \<Rightarrow> real list" where
  "sq_bcc_denoms qa qb qc dnn d_factor =
    (let a1 = qa - qc + qb;
         a2 = qa + qc - qb;
         a3 = - qa + qc + qb;
         half_dnn = 0.5 * dnn;
         arg = 0.5 * square (half_dnn * d_factor) * (a1 * a1 + a2 * a2 + a3 * a3);
         exp_arg = exp (- arg)
     in [(exp_arg - 2 * cos (half_dnn * a1)) * exp_arg + 1,
         (exp_arg - 2 * cos (half_dnn * a2)) * exp_arg + 1,
         (exp_arg - 2 * cos (half_dnn * a3)) * exp_arg + 1])"

text \<open>
  \<^verbatim>\<open>sphere_volume\<close> is not among the sources and is a parameter of
  \<^verbatim>\<open>_bcc_volume_fraction\<close>.
\<close>

definition bcc_volume_fraction :: "(real \<Rightarrow> real) \<Rightarrow> real \<Rightarrow> real \<Rightarrow> real" where
  "bcc_volume_fraction sphere_volume radius dnn =
    2 * sphere_volume (sqrt 0.75 * radius / dnn)"

text \<open>
  The tables \<^verbatim>\<open>Gauss150Z\<close> and \<^verbatim>\<open>Gauss150Wt\<close> (150 entries each) are not among the sources;
  each is a parameter, the function from an index to its entry. The inner loop of \<^verbatim>\<open>Iq\<close>
  runs \<^verbatim>\<open>j\<close> from 0 while \<^verbatim>\<open>j < 150\<close> and carries \<^verbatim>\<open>inner_sum\<close>; \<^verbatim>\<open>SINCOS(a, s, c)\<close> assigns
  \<^verbatim>\<open>sin(a)\<close> to \<^verbatim>\<open>s\<close> and \<^verbatim>\<open>cos(a)\<close> to \<^verbatim>\<open>c\<close>.
\<close>

function Iq_inner ::
  "(nat \<Rightarrow> real) \<Rightarrow> (nat \<Rightarrow> real) \<Rightarrow> real \<Rightarrow> real \<Rightarrow> real \<Rightarrow> real \<Rightarrow> nat \<Rightarrow> real \<Rightarrow> real" where
  "Iq_inner Gauss150Z Gauss150Wt qab qc dnn d_factor j inner_sum =
    (if j < 150
     then (let phi_m = M_PI;
               phi_b = M_PI;
               phi = Gauss150Z j * phi_m + phi_b;
               sin_phi = sin phi;
               cos_phi = cos phi;
               qa = qab * cos_phi;
               qb = qab * sin_phi;
               fq = sq_bcc qa qb qc dnn d_factor
           in Iq_inner Gauss150Z Gauss150Wt qab qc dnn d_factor (j + 1)
                (inner_sum + Gauss150Wt j * fq))
     else inner_sum)"
  by pat_completeness auto
termination
  by (relation "measure (\<lambda>(Z, Wt, qab, qc, dnn, d_factor, j, s). 150 - j)") auto

declare Iq_inner.simps [simp del]

text \<open>The outer loop of \<^verbatim>\<open>Iq\<close> runs \<^verbatim>\<open>i\<close> from 0 while \<^verbatim>\<open>i < 150\<close> and carries \<^verbatim>\<open>outer_sum\<close>.\<close>

function Iq_outer ::
  "(nat \<Rightarrow> real) \<Rightarrow> (nat \<Rightarrow> real) \<Rightarrow> real \<Rightarrow> real \<Rightarrow> real \<Rightarrow> nat \<Rightarrow> real \<Rightarrow> real" where
  "Iq_outer Gauss150Z Gauss150Wt q dnn d_factor i outer_sum =
    (if i < 150
     then (let phi_m = M_PI;
               theta_m = M_PI_2;
               theta_b = M_PI_2;
               theta = Gauss150Z i * theta_m + theta_b;
               sin_theta = sin theta;
               cos_theta = cos theta;
               qc = q * cos_theta;
               qab = q * sin_theta;
               inner_sum = Iq_inner Gauss150Z Gauss150Wt qab qc dnn d_factor 0 0;
               inner_sum = inner_sum * phi_m
           in Iq_outer Gauss150Z Gauss150Wt q dnn d_factor (i + 1)
                (outer_sum + Gauss150Wt i * inner_sum * sin_theta))
     else outer_sum)"
  by pat_completeness auto
termination
  by (relation "measure (\<lambda>(Z, Wt, q, dnn, d_factor, i, s). 150 - i)") auto

declare Iq_outer.simps [simp del]

text \<open>
  \<^verbatim>\<open>Iq\<close>; \<^verbatim>\<open>sphere_volume\<close> and \<^verbatim>\<open>sphere_form\<close> are not among the sources and are
  parameters.
\<close>

definition Iq ::
  "(nat \<Rightarrow> real) \<Rightarrow> (nat \<Rightarrow> real) \<Rightarrow> (real \<Rightarrow> real) \<Rightarrow> (real \<Rightarrow> real \<Rightarrow> real \<Rightarrow> real \<Rightarrow> real)
    \<Rightarrow> real \<Rightarrow> real \<Rightarrow> real \<Rightarrow> real \<Rightarrow> real \<Rightarrow> real \<Rightarrow> real" where
  "Iq Gauss150Z Gauss150Wt sphere_volume sphere_form q dnn d_factor radius sld solvent_sld =
    (let theta_m = M_PI_2;
         outer_sum = Iq_outer Gauss150Z Gauss150Wt q dnn d_factor 0 0;
         outer_sum = outer_sum * theta_m;
         Sq = outer_sum / (4 * M_PI);
         Pq = sphere_form q radius sld solvent_sld
     in bcc_volume_fraction sphere_volume radius dnn * Pq * Sq)"

text \<open>
  The quadrature nodes of \<^verbatim>\<open>Iq\<close>: the angle \<^verbatim>\<open>theta\<close> of the outer loop and the angle \<^verbatim>\<open>phi\<close>
  of the inner loop at a table node \<open>z\<close>.
\<close>

definition Iq_theta :: "real \<Rightarrow> real" where
  "Iq_theta z = z * M_PI_2 + M_PI_2"

definition Iq_phi :: "real \<Rightarrow> real" where
  "Iq_phi z = z * M_PI + M_PI"

section \<open>Properties of the spin weights\<close>

lemma clip_abs: "clip (sqrt (square x)) 0 1 = min \<bar>x\<bar> 1"
  by (simp add: clip_def square_def min_def)

lemma clip_unit: "0 \<le> x \<Longrightarrow> x \<le> 1 \<Longrightarrow> clip (sqrt (square x)) 0 1 = x"
  by (simp add: clip_abs)

lemma set_weights_by_norm:
  "set_weights i o' =
    (let a = clip (sqrt (square i)) 0 1; b = clip (sqrt (square o')) 0 1; n = set_weights_norm o'
     in [(1 - a) * (1 - b) / n, (1 - a) * (1 - b) / n, a * b / n, a * b / n,
         (1 - a) * b / n, (1 - a) * b / n, a * (1 - b) / n, a * (1 - b) / n])"
  by (simp add: set_weights_def set_weights_norm_def Let_def)

lemma set_weights_norm_unit:
  "0 \<le> x \<Longrightarrow> x \<le> 1 \<Longrightarrow> set_weights_norm x = (if x < 1 / 2 then 1 - x else x)"
  by (simp add: set_weights_norm_def clip_unit Let_def)

lemma set_weights_unit:
  assumes "0 \<le> i" "i \<le> 1" "0 \<le> x" "x \<le> 1"
  shows "set_weights i x =
    (let n = (if x < 1 / 2 then 1 - x else x)
     in [(1 - i) * (1 - x) / n, (1 - i) * (1 - x) / n, i * x / n, i * x / n,
         (1 - i) * x / n, (1 - i) * x / n, i * (1 - x) / n, i * (1 - x) / n])"
  using assms by (simp add: set_weights_by_norm set_weights_norm_unit clip_unit Let_def)


lemma set_weights_norm_nonzero: "set_weights_norm x \<noteq> 0"
  by (auto simp add: set_weights_norm_def clip_abs Let_def min_def split: if_splits)

text \<open>
  Claim C1, as stated: for \<^verbatim>\<open>in_spin\<close> and \<^verbatim>\<open>out_spin\<close> in \<open>[0,1]\<close> the weights of the slots
  0, 2, 4 and 6 sum to 1. At \<^verbatim>\<open>in_spin = out_spin = 0.5\<close> the clamped values are 0.5, the
  test \<^verbatim>\<open>out_spin < 0.5\<close> fails, \<^verbatim>\<open>norm\<close> is 0.5, each of the four weights is
  \<open>0.25 / 0.5 = 0.5\<close> and their sum is 2.
\<close>

theorem set_weights_sum_not_one:
  "set_weights (1 / 2) (1 / 2) ! 0 + set_weights (1 / 2) (1 / 2) ! 2
     + set_weights (1 / 2) (1 / 2) ! 4 + set_weights (1 / 2) (1 / 2) ! 6 \<noteq> 1"
  by (simp add: set_weights_unit Let_def)

text \<open>
  Claim C1, amended: for \<^verbatim>\<open>in_spin\<close> and \<^verbatim>\<open>out_spin\<close> in \<open>[0,1]\<close> the weights of the slots
  0, 2, 4 and 6 sum to \<open>1 / norm\<close>, where \<^verbatim>\<open>norm\<close> is \<^verbatim>\<open>1 - out_spin\<close> when
  \<^verbatim>\<open>out_spin < 0.5\<close> and \<^verbatim>\<open>out_spin\<close> otherwise: the division by \<^verbatim>\<open>norm\<close> is the function's
  own normalisation, so the four products sum to one before it and to \<open>1 / norm\<close> after it.
\<close>

theorem set_weights_sum:
  assumes "0 \<le> in_spin" "in_spin \<le> 1" "0 \<le> out_spin" "out_spin \<le> 1"
  shows "set_weights in_spin out_spin ! 0 + set_weights in_spin out_spin ! 2
           + set_weights in_spin out_spin ! 4 + set_weights in_spin out_spin ! 6
         = 1 / (if out_spin < 1 / 2 then 1 - out_spin else out_spin)"
proof -
  define n where "n = (if out_spin < 1 / 2 then 1 - out_spin else out_spin)"
  have "set_weights in_spin out_spin ! 0 + set_weights in_spin out_spin ! 2
           + set_weights in_spin out_spin ! 4 + set_weights in_spin out_spin ! 6
        = (1 - in_spin) * (1 - out_spin) / n + in_spin * out_spin / n
           + (1 - in_spin) * out_spin / n + in_spin * (1 - out_spin) / n"
    using assms by (simp add: set_weights_unit n_def Let_def)
  also have "\<dots> = ((1 - in_spin) * (1 - out_spin) + in_spin * out_spin
           + (1 - in_spin) * out_spin + in_spin * (1 - out_spin)) / n"
    by (simp add: add_divide_distrib)
  also have "\<dots> = 1 / n"
    by (simp add: algebra_simps)
  finally show ?thesis by (simp add: n_def)
qed

theorem set_weights_sum_witness:
  "set_weights (1 / 4) (3 / 4) ! 0 + set_weights (1 / 4) (3 / 4) ! 2
     + set_weights (1 / 4) (3 / 4) ! 4 + set_weights (1 / 4) (3 / 4) ! 6 = 4 / 3"
  using set_weights_sum [of "1 / 4" "3 / 4"] by simp

text \<open>
  Claim C2 says that \<^verbatim>\<open>norm\<close> is computed from the clamped \<^verbatim>\<open>out_spin\<close> only, so that the
  eight weights do not change when the sign of an input is flipped. The code reads \<^verbatim>\<open>norm\<close>
  from \<^verbatim>\<open>out_spin\<close> before it clamps: at \<^verbatim>\<open>out_spin = -0.5\<close> the clamped value is 0.5, the
  test \<^verbatim>\<open>out_spin < 0.5\<close> fails and \<^verbatim>\<open>norm\<close> keeps the unclamped \<open>-0.5\<close>, so with
  \<^verbatim>\<open>in_spin = 0.5\<close> all eight weights are \<open>-0.5\<close>, whereas \<^verbatim>\<open>out_spin = 0.5\<close> gives \<open>0.5\<close>.
\<close>

theorem set_weights_negative_out_spin:
  "clip (sqrt (square (- 1 / 2))) 0 1 = 1 / 2
   \<and> set_weights_norm (- 1 / 2) = - 1 / 2
   \<and> set_weights (1 / 2) (- 1 / 2)
       = [- 1 / 2, - 1 / 2, - 1 / 2, - 1 / 2, - 1 / 2, - 1 / 2, - 1 / 2, - 1 / 2]
   \<and> set_weights (1 / 2) (1 / 2) = [1 / 2, 1 / 2, 1 / 2, 1 / 2, 1 / 2, 1 / 2, 1 / 2, 1 / 2]"
  by (simp add: set_weights_by_norm set_weights_norm_def clip_abs Let_def)

text \<open>
  Claim C8: at \<^verbatim>\<open>out_spin = 0\<close> the clamped value 0 is below 0.5, so \<^verbatim>\<open>norm\<close> is
  \<open>1 - 0 = 1\<close>, which is not zero, and the eight quotients are the plain products: with
  \<open>a\<close> the clamped \<^verbatim>\<open>in_spin\<close> the weights are \<open>1 - a, 1 - a, 0, 0, 0, 0, a, a\<close>.
\<close>

theorem set_weights_out_spin_zero:
  "set_weights_norm 0 = 1 \<and> set_weights_norm 0 \<noteq> 0
   \<and> set_weights in_spin 0 =
       (let a = clip (sqrt (square in_spin)) 0 1 in [1 - a, 1 - a, 0, 0, 0, 0, a, a])"
  by (simp add: set_weights_by_norm set_weights_norm_def clip_abs Let_def)

section \<open>Properties of the core-shell amplitude\<close>

lemma c_int_cast_zero_iff: "c_int_cast x = 0 \<longleftrightarrow> - 1 < x \<and> x < 1"
  unfolding c_int_cast_def by (auto simp: ceiling_eq_iff floor_eq_iff)

lemma fq_core_shell_loop_done:
  "\<not> i < n \<Longrightarrow> fq_core_shell_loop j1 q sld thickness n i (f, r, last_sld) = (f, r, last_sld)"
  by (simp add: fq_core_shell_loop.simps)

text \<open>
  Claim C5: when \<^verbatim>\<open>(int)(fp_n+0.5)\<close> is 0 the loop over the shells is not entered, and
  \<^verbatim>\<open>fq_core_shell\<close> returns the amplitude of the uniform sphere,
  \<open>(4\<pi>/3) radius\<^sup>3 (sld_solvent - sld_core) sas_3j1x_x(q radius)\<close>, whatever the arrays
  \<^verbatim>\<open>sld[]\<close> and \<^verbatim>\<open>thickness[]\<close> hold.
\<close>

theorem fq_core_shell_no_shell:
  assumes "c_int_cast (fp_n + 0.5) = 0"
  shows "fq_core_shell sas_3j1x_x q sld_core radius sld_solvent fp_n sld thickness
         = (4 * pi / 3) * radius ^ 3 * (sld_solvent - sld_core) * sas_3j1x_x (q * radius)"
  using assms
  by (simp add: fq_core_shell_def fq_core_shell_loop_done M_4PI_3_def cube_def
      power3_eq_cube)

theorem fq_core_shell_no_shell_witness:
  "c_int_cast (0 + 0.5) = 0
   \<and> fq_core_shell (\<lambda>x. x) 2 1 3 5 0 (\<lambda>i. 7) (\<lambda>i. 1) = (4 * pi / 3) * 3 ^ 3 * (5 - 1) * (2 * 3)"
  using fq_core_shell_no_shell [of 0 "\<lambda>x. x" 2 1 3 5 "\<lambda>i. 7" "\<lambda>i. 1"]
  by (simp add: c_int_cast_def)

section \<open>Properties of the vector algebra and of the magnetic decomposition\<close>

text \<open>
  Claim C7: when \<open>v2 \<cdot> v2\<close> is not zero, \<^verbatim>\<open>ORTH_VEC(out, v1, v2)\<close> leaves in \<^verbatim>\<open>out\<close> the
  vector \<open>v1 - (v1 \<cdot> v2 / v2 \<cdot> v2) v2\<close>, component by component, and the inner product
  of that vector with \<open>v2\<close> is zero.
\<close>

theorem ORTH_VEC_orthogonal:
  assumes "SCALAR_VEC (b0, b1, b2) (b0, b1, b2) \<noteq> 0"
  shows "ORTH_VEC (a0, a1, a2) (b0, b1, b2)
         = (a0 - SCALAR_VEC (a0, a1, a2) (b0, b1, b2) / SCALAR_VEC (b0, b1, b2) (b0, b1, b2) * b0,
            a1 - SCALAR_VEC (a0, a1, a2) (b0, b1, b2) / SCALAR_VEC (b0, b1, b2) (b0, b1, b2) * b1,
            a2 - SCALAR_VEC (a0, a1, a2) (b0, b1, b2) / SCALAR_VEC (b0, b1, b2) (b0, b1, b2) * b2)
       \<and> SCALAR_VEC (ORTH_VEC (a0, a1, a2) (b0, b1, b2)) (b0, b1, b2) = 0"
proof -
  define s where "s = a0 * b0 + a1 * b1 + a2 * b2"
  define t where "t = b0 * b0 + b1 * b1 + b2 * b2"
  define d where "d = s / t"
  have t: "t \<noteq> 0" using assms by (simp add: t_def)
  have "SCALAR_VEC (ORTH_VEC (a0, a1, a2) (b0, b1, b2)) (b0, b1, b2)
        = (a0 - d * b0) * b0 + (a1 - d * b1) * b1 + (a2 - d * b2) * b2"
    by (simp add: d_def s_def t_def)
  also have "\<dots> = s - d * t"
    by (simp add: s_def t_def algebra_simps)
  also have "\<dots> = 0" using t by (simp add: d_def)
  finally show ?thesis by simp
qed

theorem ORTH_VEC_orthogonal_witness:
  "SCALAR_VEC (0, 3, 4) (0, 3, 4) \<noteq> 0
   \<and> ORTH_VEC (1, 2, 3) (0, 3, 4) = (1, - 4 / 25, 3 / 25)
   \<and> SCALAR_VEC (ORTH_VEC (1, 2, 3) (0, 3, 4)) (0, 3, 4) = 0"
  using ORTH_VEC_orthogonal [of 0 3 4 1 2 3] by simp

text \<open>
  Claim C6: for a direction \<open>(x, y, z)\<close> whose length \<open>sqrt(x\<^sup>2+y\<^sup>2+z\<^sup>2)\<close> is not zero and
  a magnetisation whose six components are zero, \<^verbatim>\<open>mag_sld\<close> stores \<^verbatim>\<open>nuc\<close> in the slots 0
  and 2 and zero in the slots 1, 3, 4, 5, 6 and 7. (At length zero the C code divides zero
  by zero.)
\<close>

theorem mag_sld_zero_magnetisation:
  assumes "sqrt (x * x + y * y + z * z) \<noteq> 0"
  shows "mag_sld x y z 0 0 0 0 0 0 nuc = [nuc, 0, nuc, 0, 0, 0, 0, 0]"
  by (simp add: mag_sld_def SET_VEC_def Let_def)

theorem mag_sld_zero_magnetisation_witness:
  "sqrt (1 * 1 + 2 * 2 + 2 * 2) \<noteq> 0 \<and> mag_sld 1 2 2 0 0 0 0 0 0 5 = [5, 0, 5, 0, 0, 0, 0, 0]"
  using mag_sld_zero_magnetisation [of 1 2 2 5] by simp

section \<open>Properties of the BCC lattice sum\<close>

lemma bcc_factor:
  fixes e c :: real
  assumes "0 < e"
  shows "((1 / e - e) / 2) / ((1 / e + e) / 2 - c) = (1 - e * e) / ((e - 2 * c) * e + 1)"
proof -
  have n: "(1 / e - e) / 2 = (1 - e * e) / (2 * e)"
    using assms by (simp add: field_simps)
  have d: "(1 / e + e) / 2 - c = ((e - 2 * c) * e + 1) / (2 * e)"
    using assms by (simp add: field_simps)
  show ?thesis
    unfolding n d using assms by simp
qed

lemma sinh_by_exp_minus: "sinh (x::real) = (1 / exp (- x) - exp (- x)) / 2"
  by (simp add: sinh_field_def exp_minus inverse_eq_divide)

lemma cosh_by_exp_minus: "cosh (x::real) = (1 / exp (- x) + exp (- x)) / 2"
  by (simp add: cosh_field_def exp_minus inverse_eq_divide)

lemma expm1_double: "- cube (expm1 (- 2 * x)) = (1 - exp (- x) * exp (- x)) * (1 - exp (- x) * exp (- x)) * (1 - exp (- x) * exp (- x))"
proof -
  have "exp (- 2 * x) = exp (- x) * exp (- x)"
    by (simp add: exp_add [symmetric])
  then show ?thesis
    by (simp add: cube_def expm1_def algebra_simps)
qed

text \<open>
  Claim C3: when none of the three factors of the denominator of the compiled form is
  zero, the compiled form of \<^verbatim>\<open>_sq_bcc\<close>, with \<^verbatim>\<open>expm1\<close>, and the alternate form, with
  \<^verbatim>\<open>sinh\<close> and \<^verbatim>\<open>cosh\<close>, are equal over the reals, for all \<^verbatim>\<open>qa\<close>, \<^verbatim>\<open>qb\<close>, \<^verbatim>\<open>qc\<close>, \<^verbatim>\<open>dnn\<close>
  and \<^verbatim>\<open>d_factor\<close>.
\<close>

theorem sq_bcc_alt_equal:
  assumes "0 \<notin> set (sq_bcc_denoms qa qb qc dnn d_factor)"
  shows "sq_bcc qa qb qc dnn d_factor = sq_bcc_alt qa qb qc dnn d_factor"
proof -
  define a1 where "a1 = qa - qc + qb"
  define a2 where "a2 = qa + qc - qb"
  define a3 where "a3 = - qa + qc + qb"
  define h where "h = 0.5 * dnn"
  define arg where "arg = 0.5 * square (h * d_factor) * (a1 * a1 + a2 * a2 + a3 * a3)"
  define e where "e = exp (- arg)"
  define u where "u = 1 - e * e"
  define f where "f = (\<lambda>a. (e - 2 * cos (h * a)) * e + 1)"
  have e: "0 < e" by (simp add: e_def)
  have r: "sinh arg / (cosh arg - cos (h * a)) = u / f a" for a
    unfolding sinh_by_exp_minus cosh_by_exp_minus u_def f_def e_def [symmetric]
    by (rule bcc_factor [OF e])
  have "sq_bcc qa qb qc dnn d_factor = (u * u * u) / (f a1 * f a2 * f a3)"
    unfolding sq_bcc_def Let_def a1_def [symmetric] a2_def [symmetric] a3_def [symmetric]
      h_def [symmetric] arg_def [symmetric] expm1_double
    by (simp add: u_def f_def e_def)
  also have "\<dots> = u / f a1 * (u / f a2) * (u / f a3)"
    by simp
  also have "\<dots> = sinh arg / (cosh arg - cos (h * a1)) * (sinh arg / (cosh arg - cos (h * a2)))
      * (sinh arg / (cosh arg - cos (h * a3)))"
    by (simp only: r)
  also have "\<dots> = sq_bcc_alt qa qb qc dnn d_factor"
    unfolding sq_bcc_alt_def Let_def a1_def [symmetric] a2_def [symmetric] a3_def [symmetric]
      h_def [symmetric] arg_def [symmetric]
    by simp
  finally show ?thesis .
qed


theorem sq_bcc_alt_equal_witness:
  "0 \<notin> set (sq_bcc_denoms 1 0 0 pi 1) \<and> sq_bcc 1 0 0 pi 1 = sq_bcc_alt 1 0 0 pi 1"
proof -
  have p: "0 < x * x + 1" for x :: real
    by (rule add_nonneg_pos) simp_all
  have h: "0 \<notin> set (sq_bcc_denoms 1 0 0 pi 1)"
    using p by (simp add: sq_bcc_denoms_def Let_def less_imp_neq)
  show ?thesis
    using h sq_bcc_alt_equal [OF h] by simp
qed

text \<open>
  Claim C10: \<^verbatim>\<open>_sq_bcc(qa, qb, qc, dnn, d_factor)\<close> keeps its value under each of the five
  non-trivial permutations of \<^verbatim>\<open>qa\<close>, \<^verbatim>\<open>qb\<close>, \<^verbatim>\<open>qc\<close> and under the negation of all three:
  the arguments \<^verbatim>\<open>a1\<close>, \<^verbatim>\<open>a2\<close>, \<^verbatim>\<open>a3\<close> are permuted, or all negated, and enter only through
  the sum of their squares and through the cosines.
\<close>

theorem sq_bcc_symmetric:
  "sq_bcc qb qa qc dnn d_factor = sq_bcc qa qb qc dnn d_factor
   \<and> sq_bcc qa qc qb dnn d_factor = sq_bcc qa qb qc dnn d_factor
   \<and> sq_bcc qc qb qa dnn d_factor = sq_bcc qa qb qc dnn d_factor
   \<and> sq_bcc qb qc qa dnn d_factor = sq_bcc qa qb qc dnn d_factor
   \<and> sq_bcc qc qa qb dnn d_factor = sq_bcc qa qb qc dnn d_factor
   \<and> sq_bcc (- qa) (- qb) (- qc) dnn d_factor = sq_bcc qa qb qc dnn d_factor"
proof -
  define G where "G = (\<lambda>a1 a2 a3.
    let half_dnn = 0.5 * dnn;
        arg = 0.5 * square (half_dnn * d_factor) * (a1 * a1 + a2 * a2 + a3 * a3);
        exp_arg = exp (- arg)
    in - cube (expm1 (- 2 * arg))
        / (((exp_arg - 2 * cos (half_dnn * a1)) * exp_arg + 1)
         * ((exp_arg - 2 * cos (half_dnn * a2)) * exp_arg + 1)
         * ((exp_arg - 2 * cos (half_dnn * a3)) * exp_arg + 1)))"
  have sq: "sq_bcc x y z dnn d_factor = G (x - z + y) (x + z - y) (- x + z + y)" for x y z
    unfolding sq_bcc_def G_def Let_def by (rule refl)
  have s12: "G b a c = G a b c" for a b c
    by (simp add: G_def Let_def ac_simps)
  have s23: "G a c b = G a b c" for a b c
    by (simp add: G_def Let_def ac_simps)
  have neg: "G (- a) (- b) (- c) = G a b c" for a b c
    by (simp add: G_def Let_def)
  have ab: "sq_bcc y x z dnn d_factor = sq_bcc x y z dnn d_factor" for x y z
  proof -
    have a: "y - z + x = x - z + y" "y + z - x = - x + z + y" "- y + z + x = x + z - y"
      by simp_all
    show ?thesis unfolding sq a by (rule s23)
  qed
  have bc: "sq_bcc x z y dnn d_factor = sq_bcc x y z dnn d_factor" for x y z
  proof -
    have a: "x - y + z = x + z - y" "x + y - z = x - z + y" "- x + y + z = - x + z + y"
      by simp_all
    show ?thesis unfolding sq a by (rule s12)
  qed
  have ca: "sq_bcc qc qb qa dnn d_factor = sq_bcc qa qb qc dnn d_factor"
  proof -
    have "sq_bcc qc qb qa dnn d_factor = sq_bcc qb qc qa dnn d_factor" by (rule ab)
    also have "\<dots> = sq_bcc qb qa qc dnn d_factor" by (rule bc)
    also have "\<dots> = sq_bcc qa qb qc dnn d_factor" by (rule ab)
    finally show ?thesis .
  qed
  have rot1: "sq_bcc qb qc qa dnn d_factor = sq_bcc qa qb qc dnn d_factor"
  proof -
    have "sq_bcc qb qc qa dnn d_factor = sq_bcc qb qa qc dnn d_factor" by (rule bc)
    also have "\<dots> = sq_bcc qa qb qc dnn d_factor" by (rule ab)
    finally show ?thesis .
  qed
  have rot2: "sq_bcc qc qa qb dnn d_factor = sq_bcc qa qb qc dnn d_factor"
  proof -
    have "sq_bcc qc qa qb dnn d_factor = sq_bcc qa qc qb dnn d_factor" by (rule ab)
    also have "\<dots> = sq_bcc qa qb qc dnn d_factor" by (rule bc)
    finally show ?thesis .
  qed
  have inv: "sq_bcc (- qa) (- qb) (- qc) dnn d_factor = sq_bcc qa qb qc dnn d_factor"
  proof -
    have a: "- qa - - qc + - qb = - (qa - qc + qb)" "- qa + - qc - - qb = - (qa + qc - qb)"
      "- (- qa) + - qc + - qb = - (- qa + qc + qb)"
      by simp_all
    show ?thesis unfolding sq a by (rule neg)
  qed
  show ?thesis
    using ab bc ca rot1 rot2 inv by simp
qed

section \<open>Properties of the orientation average\<close>

lemma Iq_inner_sum:
  "Iq_inner Z Wt qab qc dnn d_factor j s
   = s + (\<Sum>k = j..<150. Wt k * sq_bcc (qab * cos (Iq_phi (Z k))) (qab * sin (Iq_phi (Z k)))
            qc dnn d_factor)"
proof (induction Z Wt qab qc dnn d_factor j s rule: Iq_inner.induct)
  case (1 Z Wt qab qc dnn d_factor j s)
  show ?case
  proof (cases "j < 150")
    case True
    have "Iq_inner Z Wt qab qc dnn d_factor j s
          = Iq_inner Z Wt qab qc dnn d_factor (j + 1)
              (s + Wt j * sq_bcc (qab * cos (Iq_phi (Z j))) (qab * sin (Iq_phi (Z j))) qc dnn d_factor)"
      using True by (subst Iq_inner.simps) (simp add: Let_def Iq_phi_def)
    also have "\<dots> = s + Wt j * sq_bcc (qab * cos (Iq_phi (Z j))) (qab * sin (Iq_phi (Z j))) qc dnn d_factor
          + (\<Sum>k = j + 1..<150. Wt k * sq_bcc (qab * cos (Iq_phi (Z k))) (qab * sin (Iq_phi (Z k)))
            qc dnn d_factor)"
      using "1.IH" [OF True refl refl refl refl refl refl refl refl]
      by (simp add: Iq_phi_def)
    also have "\<dots> = s + (\<Sum>k = j..<150. Wt k * sq_bcc (qab * cos (Iq_phi (Z k))) (qab * sin (Iq_phi (Z k)))
            qc dnn d_factor)"
      using True by (simp add: sum.atLeast_Suc_lessThan)
    finally show ?thesis .
  next
    case False
    then show ?thesis by (subst Iq_inner.simps) simp
  qed
qed

lemma Iq_outer_sum:
  "Iq_outer Z Wt q dnn d_factor i s
   = s + (\<Sum>k = i..<150. Wt k
        * (Iq_inner Z Wt (q * sin (Iq_theta (Z k))) (q * cos (Iq_theta (Z k))) dnn d_factor 0 0 * M_PI)
        * sin (Iq_theta (Z k)))"
proof (induction Z Wt q dnn d_factor i s rule: Iq_outer.induct)
  case (1 Z Wt q dnn d_factor i s)
  show ?case
  proof (cases "i < 150")
    case True
    define t where "t = Wt i
        * (Iq_inner Z Wt (q * sin (Iq_theta (Z i))) (q * cos (Iq_theta (Z i))) dnn d_factor 0 0 * M_PI)
        * sin (Iq_theta (Z i))"
    have "Iq_outer Z Wt q dnn d_factor i s = Iq_outer Z Wt q dnn d_factor (i + 1) (s + t)"
      using True by (subst Iq_outer.simps) (simp add: Let_def Iq_theta_def t_def)
    also have "\<dots> = s + t + (\<Sum>k = i + 1..<150. Wt k
        * (Iq_inner Z Wt (q * sin (Iq_theta (Z k))) (q * cos (Iq_theta (Z k))) dnn d_factor 0 0 * M_PI)
        * sin (Iq_theta (Z k)))"
      using "1.IH" [OF True refl refl refl refl refl refl refl refl refl refl]
      by (simp add: Iq_theta_def t_def)
    also have "\<dots> = s + (\<Sum>k = i..<150. Wt k
        * (Iq_inner Z Wt (q * sin (Iq_theta (Z k))) (q * cos (Iq_theta (Z k))) dnn d_factor 0 0 * M_PI)
        * sin (Iq_theta (Z k)))"
      using True by (simp add: sum.atLeast_Suc_lessThan t_def)
    finally show ?thesis .
  next
    case False
    then show ?thesis by (subst Iq_outer.simps) simp
  qed
qed


lemma Iq_angles:
  assumes "- 1 \<le> z" "z \<le> 1"
  shows "0 \<le> Iq_theta z" "Iq_theta z \<le> pi" "0 \<le> Iq_phi z" "Iq_phi z \<le> 2 * pi"
proof -
  have a: "Iq_theta z = (z + 1) * (pi / 2)" "Iq_phi z = (z + 1) * pi"
    by (simp_all add: Iq_theta_def Iq_phi_def M_PI_def M_PI_2_def algebra_simps)
  have "0 \<le> z + 1" "z + 1 \<le> 2" using assms by simp_all
  then have "0 \<le> (z + 1) * (pi / 2)" "(z + 1) * (pi / 2) \<le> 2 * (pi / 2)"
    "0 \<le> (z + 1) * pi" "(z + 1) * pi \<le> 2 * pi"
    by (simp_all add: mult_right_mono)
  then show "0 \<le> Iq_theta z" "Iq_theta z \<le> pi" "0 \<le> Iq_phi z" "Iq_phi z \<le> 2 * pi"
    by (simp_all add: a)
qed

text \<open>
  Claim C4: \<^verbatim>\<open>Iq\<close> is the product of \<^verbatim>\<open>_bcc_volume_fraction(radius, dnn)\<close>, of
  \<^verbatim>\<open>sphere_form(q, radius, sld, solvent_sld)\<close> and of \<^verbatim>\<open>Sq\<close>, where \<^verbatim>\<open>Sq\<close> is the double sum
  over the 150 nodes: the inner sum over \<^verbatim>\<open>phi\<close> of the weighted \<^verbatim>\<open>_sq_bcc\<close> at
  \<open>(q sin \<theta> cos \<phi>, q sin \<theta> sin \<phi>, q cos \<theta>)\<close> is scaled by \<open>\<pi>\<close>, each term of the outer sum
  over \<^verbatim>\<open>theta\<close> is weighted by \<open>sin \<theta>\<close>, the outer sum is scaled by \<open>\<pi>/2\<close> and the whole is
  divided by \<open>4\<pi>\<close>. A node \<open>z\<close> of \<open>[-1,1]\<close> gives \<open>\<theta>\<close> in \<open>[0,\<pi>]\<close> and \<open>\<phi>\<close> in \<open>[0,2\<pi>]\<close>.
\<close>

theorem Iq_quadrature:
  "Iq Z Wt sphere_volume sphere_form q dnn d_factor radius sld solvent_sld
   = bcc_volume_fraction sphere_volume radius dnn
     * sphere_form q radius sld solvent_sld
     * ((pi / 2)
         * (\<Sum>i<150. Wt i
              * (pi * (\<Sum>j<150. Wt j
                        * sq_bcc (q * sin (Iq_theta (Z i)) * cos (Iq_phi (Z j)))
                                 (q * sin (Iq_theta (Z i)) * sin (Iq_phi (Z j)))
                                 (q * cos (Iq_theta (Z i))) dnn d_factor))
              * sin (Iq_theta (Z i)))
         / (4 * pi))
   \<and> (\<forall>z. - 1 \<le> z \<and> z \<le> 1 \<longrightarrow>
          0 \<le> Iq_theta z \<and> Iq_theta z \<le> pi \<and> 0 \<le> Iq_phi z \<and> Iq_phi z \<le> 2 * pi)"
proof -
  have "Iq Z Wt sphere_volume sphere_form q dnn d_factor radius sld solvent_sld
   = bcc_volume_fraction sphere_volume radius dnn
     * sphere_form q radius sld solvent_sld
     * (Iq_outer Z Wt q dnn d_factor 0 0 * M_PI_2 / (4 * M_PI))"
    by (simp add: Iq_def Let_def)
  also have "Iq_outer Z Wt q dnn d_factor 0 0 * M_PI_2 / (4 * M_PI)
    = (pi / 2)
         * (\<Sum>i<150. Wt i
              * (pi * (\<Sum>j<150. Wt j
                        * sq_bcc (q * sin (Iq_theta (Z i)) * cos (Iq_phi (Z j)))
                                 (q * sin (Iq_theta (Z i)) * sin (Iq_phi (Z j)))
                                 (q * cos (Iq_theta (Z i))) dnn d_factor))
              * sin (Iq_theta (Z i)))
         / (4 * pi)"
    by (simp add: Iq_outer_sum Iq_inner_sum M_PI_def M_PI_2_def atLeast0LessThan mult.commute)
  finally show ?thesis
    using Iq_angles by blast
qed

theorem Iq_quadrature_witness:
  "Iq (\<lambda>i. 0) (\<lambda>i. 1) (\<lambda>r. r) (\<lambda>q r s t. 1) 1 1 1 1 1 1
     = 2 * sqrt (3 / 4) * ((pi / 2) * (150 * (pi * (150 * sq_bcc (- 1) 0 0 1 1))) / (4 * pi))
   \<and> - 1 \<le> (0::real) \<and> (0::real) \<le> 1
   \<and> 0 \<le> Iq_theta 0 \<and> Iq_theta 0 \<le> pi \<and> 0 \<le> Iq_phi 0 \<and> Iq_phi 0 \<le> 2 * pi"
proof -
  have a: "Iq_theta 0 = pi / 2" "Iq_phi 0 = pi"
    by (simp_all add: Iq_theta_def Iq_phi_def M_PI_def M_PI_2_def)
  show ?thesis
    using Iq_quadrature [of "\<lambda>i. 0" "\<lambda>i. 1" "\<lambda>r. r" "\<lambda>q r s t. 1" 1 1 1 1 1 1]
    by (simp add: a bcc_volume_fraction_def)
qed

section \<open>Properties of the Langevin function\<close>

text \<open>
  A Taylor bound on \<open>exp (- y)\<close> with the Lagrange remainder of order five, and from it the
  distance between \<open>coth x - 1/x\<close> and \<open>x/3\<close> at the threshold \<open>x = 0.00001\<close>.
\<close>

lemma exp_neg_small:
  fixes y :: real
  assumes "0 < y" "y \<le> 1"
  shows "1 - y + y^2 / 2 - y^3 / 6 + y^4 / 24 - 3 * y^5 / 120 \<le> exp (- y)"
    and "exp (- y) < 1 - y + y^2 / 2 - y^3 / 6 + y^4 / 24"
proof -
  obtain t where t: "\<bar>t\<bar> \<le> \<bar>- y\<bar>"
    and e: "exp (- y) = (\<Sum>m<5. (- y) ^ m / fact m) + exp t / fact 5 * (- y) ^ 5"
    using Maclaurin_exp_le [of "- y" 5] by blast
  have s: "(\<Sum>m<5. (- y) ^ m / fact m) = 1 - y + y^2 / 2 - y^3 / 6 + y^4 / 24"
    by (simp add: numeral_eq_Suc fact_numeral)
  have r: "exp t / fact 5 * (- y) ^ 5 = - (exp t * y^5 / 120)"
    by (simp add: fact_numeral)
  have "t \<le> 1" using t assms by simp
  then have "exp t \<le> exp 1" by simp
  also have "exp (1::real) \<le> 3" by (rule exp_le)
  finally have u: "exp t \<le> 3" .
  have p: "0 < y^5" using assms by simp
  have "0 < exp t * y^5" using p by simp
  moreover have "exp t * y^5 \<le> 3 * y^5" using u p by simp
  ultimately show "1 - y + y^2 / 2 - y^3 / 6 + y^4 / 24 - 3 * y^5 / 120 \<le> exp (- y)"
    and "exp (- y) < 1 - y + y^2 / 2 - y^3 / 6 + y^4 / 24"
    unfolding e s r by simp_all
qed


lemma coth_boundary:
  defines "x \<equiv> (1 / 100000 :: real)"
  shows "\<bar>(1 / tanh x - 1 / x) - x / 3\<bar> < 1 / 1000000 * (x / 3)"
proof -
  define F where "F = exp (- (1 / 50000 :: real))"
  have lo: "1 - (1 / 50000) + (1 / 50000)^2 / 2 - (1 / 50000)^3 / 6 + (1 / 50000)^4 / 24
            - 3 * (1 / 50000)^5 / 120 \<le> F"
    and hi: "F < 1 - (1 / 50000) + (1 / 50000)^2 / 2 - (1 / 50000)^3 / 6 + (1 / 50000)^4 / 24"
    unfolding F_def by (rule exp_neg_small; simp)+
  have F1: "F < 1" by (simp add: F_def)
  define c where "c = (1 + F) / (1 - F)"
  have th: "1 / tanh x = c"
    by (simp add: tanh_real_altdef x_def F_def c_def)
  have up: "c < 100000 + (1 / 100000) / 3 * (1 + 1 / 1000000)"
    unfolding c_def using F1 hi by (simp add: power_divide field_simps)
  have dn: "100000 + (1 / 100000) / 3 * (1 - 1 / 1000000) < c"
    unfolding c_def using F1 lo by (simp add: power_divide field_simps)
  have a: "(c - 100000) - (1 / 100000) / 3 < 1 / 1000000 * ((1 / 100000) / 3)"
    using up by simp
  have b: "- ((c - 100000) - (1 / 100000) / 3) < 1 / 1000000 * ((1 / 100000) / 3)"
    using dn by simp
  have "\<bar>(c - 100000) - (1 / 100000) / 3\<bar> < 1 / 1000000 * ((1 / 100000) / 3)"
    using a b by (rule abs_less_iff [THEN iffD2, OF conjI])
  then show ?thesis
    unfolding th by (simp add: x_def)
qed


lemma langevin_near_zero: "eventually (\<lambda>x. langevin x = x / 3) (at 0)"
  unfolding eventually_at
proof (intro exI [of _ "1 / 100000"] conjI ballI impI)
  show "(0::real) < 1 / 100000" by simp
next
  fix x :: real
  assume "x \<noteq> 0 \<and> dist x 0 < 1 / 100000"
  then have "\<bar>x\<bar> < 1 / 100000" by (simp add: dist_real_def)
  then have "x < 1 / 100000" by linarith
  then show "langevin x = x / 3" by (simp add: langevin_def)
qed

lemma langevinoverx_near_zero: "eventually (\<lambda>x. langevinoverx x = 1 / 3) (at 0)"
  unfolding eventually_at
proof (intro exI [of _ "1 / 100000"] conjI ballI impI)
  show "(0::real) < 1 / 100000" by simp
next
  fix x :: real
  assume "x \<noteq> 0 \<and> dist x 0 < 1 / 100000"
  then have "\<bar>x\<bar> < 1 / 100000" by (simp add: dist_real_def)
  then have "x < 1 / 100000" by linarith
  then show "langevinoverx x = 1 / 3" by (simp add: langevinoverx_def)
qed

text \<open>
  Claim C9: \<^verbatim>\<open>langevin\<close> branches at \<open>x = 0.00001\<close>: below it returns \<open>x/3\<close>, otherwise
  \<open>1/tanh x - 1/x\<close>; \<^verbatim>\<open>langevinoverx\<close> returns \<open>1/3\<close> below the threshold and
  \<^verbatim>\<open>langevin(x)/x\<close> otherwise. Hence near 0 \<^verbatim>\<open>langevin(x)\<close> is \<open>x/3\<close>, so that
  \<^verbatim>\<open>langevin(x) - x/3\<close> tends to 0 and \<^verbatim>\<open>langevin(x)/x\<close> and \<^verbatim>\<open>langevinoverx(x)\<close> tend to
  \<open>1/3\<close> as \<open>x\<close> tends to 0. At the threshold itself the closed-form branch is taken, and
  its value differs from the value \<open>x/3\<close> of the other branch by less than \<open>10\<^sup>-\<^sup>6\<close> of
  \<open>x/3\<close>; likewise \<^verbatim>\<open>langevinoverx\<close> there differs from \<open>1/3\<close> by less than \<open>10\<^sup>-\<^sup>6\<close> of
  \<open>1/3\<close>.
\<close>

theorem langevin_small_argument:
  "langevin x = (if x < 1 / 100000 then x / 3 else 1 / tanh x - 1 / x)
   \<and> langevinoverx x = (if x < 1 / 100000 then 1 / 3 else langevin x / x)
   \<and> eventually (\<lambda>x. langevin x = x / 3) (at 0)
   \<and> ((\<lambda>x. langevin x - x / 3) \<longlongrightarrow> 0) (at 0)
   \<and> ((\<lambda>x. langevin x / x) \<longlongrightarrow> 1 / 3) (at 0)
   \<and> (langevinoverx \<longlongrightarrow> 1 / 3) (at 0)
   \<and> langevin (1 / 100000) = 1 / tanh (1 / 100000) - 1 / (1 / 100000)
   \<and> \<bar>langevin (1 / 100000) - (1 / 100000) / 3\<bar> < 1 / 1000000 * ((1 / 100000) / 3)
   \<and> \<bar>langevinoverx (1 / 100000) - 1 / 3\<bar> < 1 / 1000000 * (1 / 3)"
proof -
  have d1: "langevin x = (if x < 1 / 100000 then x / 3 else 1 / tanh x - 1 / x)"
    by (simp add: langevin_def)
  have d2: "langevinoverx x = (if x < 1 / 100000 then 1 / 3 else langevin x / x)"
    by (simp add: langevinoverx_def)
  have l1: "((\<lambda>x. langevin x - x / 3) \<longlongrightarrow> 0) (at 0)"
    by (rule tendsto_eventually) (use langevin_near_zero in \<open>simp add: eventually_mono\<close>)
  have "eventually (\<lambda>x::real. x \<noteq> 0) (at 0)"
    by (simp add: eventually_at_filter)
  with langevin_near_zero have "eventually (\<lambda>x. langevin x / x = 1 / 3) (at 0)"
    by eventually_elim simp
  then have l2: "((\<lambda>x. langevin x / x) \<longlongrightarrow> 1 / 3) (at 0)"
    by (rule tendsto_eventually)
  have l3: "(langevinoverx \<longlongrightarrow> 1 / 3) (at 0)"
    using langevinoverx_near_zero by (rule tendsto_eventually)
  have b0: "langevin (1 / 100000) = 1 / tanh (1 / 100000) - 1 / (1 / 100000)"
    by (simp add: langevin_def)
  have b1: "\<bar>langevin (1 / 100000) - (1 / 100000) / 3\<bar> < 1 / 1000000 * ((1 / 100000) / 3)"
    unfolding b0 by (rule coth_boundary)
  define v where "v = langevin (1 / 100000)"
  have o: "langevinoverx (1 / 100000) = v * 100000"
    by (simp add: langevinoverx_def v_def)
  have "v - (1 / 100000) / 3 < 1 / 1000000 * ((1 / 100000) / 3)"
    and "- (v - (1 / 100000) / 3) < 1 / 1000000 * ((1 / 100000) / 3)"
    using b1 unfolding v_def [symmetric] abs_less_iff by simp_all
  then have "v * 100000 - 1 / 3 < 1 / 1000000 * (1 / 3)"
    and "- (v * 100000 - 1 / 3) < 1 / 1000000 * (1 / 3)"
    by simp_all
  then have b2: "\<bar>langevinoverx (1 / 100000) - 1 / 3\<bar> < 1 / 1000000 * (1 / 3)"
    unfolding o by (rule abs_less_iff [THEN iffD2, OF conjI])
  show ?thesis
    using d1 d2 langevin_near_zero l1 l2 l3 b0 b1 b2 by (intro conjI)
qed

theorem langevin_small_argument_witness:
  "langevin (1 / 200000) = 1 / 600000 \<and> langevinoverx (1 / 200000) = 1 / 3"
  using langevin_small_argument [of "1 / 200000"] by simp

end
